theory Spec2Isabelle
  imports Main
begin

section \<open>JavaScript values\<close>

text \<open>
  The three modules (the forum page \<^verbatim>\<open>js/forum.js\<close>, the profile page and the
  login/registration page) are asynchronous event handlers over three pieces of the
  browser: \<^verbatim>\<open>localStorage\<close>, the server reached through \<^verbatim>\<open>fetch\<close>, and the
  page (DOM, console, timers, \<^verbatim>\<open>window.location\<close>).

  A value obtained from \<^verbatim>\<open>response.json()\<close> is a \<open>jsval\<close>. Numbers are kept as
  integers: the code only ever tests a number for truthiness or compares a length with
  zero. An object is the list of its own properties (were a name listed twice, the first
  pair is the property). Strings are lists of 8-bit
  characters, one \<open>char\<close> per code unit, so \<open>length\<close> is the \<^verbatim>\<open>.length\<close> of a
  string whose code units are all below 256.
\<close>

datatype jsval =
    JUndefined
  | JNull
  | JBool bool
  | JNum int
  | JStr string
  | JArr "jsval list"
  | JObj "(string \<times> jsval) list"

text \<open>Truthiness, as tested by \<^verbatim>\<open>if (v)\<close> and \<^verbatim>\<open>!v\<close>.\<close>

fun truthy :: "jsval \<Rightarrow> bool" where
  "truthy JUndefined = False"
| "truthy JNull = False"
| "truthy (JBool b) = b"
| "truthy (JNum n) = (n \<noteq> 0)"
| "truthy (JStr s) = (s \<noteq> [])"
| "truthy (JArr xs) = True"
| "truthy (JObj kvs) = True"

text \<open>
  Reading a property \<^verbatim>\<open>v.k\<close> throws a TypeError when \<open>v\<close> is \<^verbatim>\<open>null\<close> or
  \<^verbatim>\<open>undefined\<close>; every caller tests \<open>nullish\<close> first and takes its \<^verbatim>\<open>catch\<close>
  branch then. On any other value the read yields the own property, the \<^verbatim>\<open>length\<close>
  of an array or string, and \<^verbatim>\<open>undefined\<close> otherwise (none of the names read by the
  code is inherited from a prototype).
\<close>

fun nullish :: "jsval \<Rightarrow> bool" where
  "nullish JUndefined = True"
| "nullish JNull = True"
| "nullish v = False"

fun get_prop :: "jsval \<Rightarrow> string \<Rightarrow> jsval" where
  "get_prop (JObj kvs) k = (case map_of kvs k of Some v \<Rightarrow> v | None \<Rightarrow> JUndefined)"
| "get_prop (JArr xs) k = (if k = ''length'' then JNum (int (length xs)) else JUndefined)"
| "get_prop (JStr s) k = (if k = ''length'' then JNum (int (length s)) else JUndefined)"
| "get_prop v k = JUndefined"

text \<open>
  Converting a value to a string, which \<^verbatim>\<open>element.textContent = v\<close>, \<^verbatim>\<open>v + '...'\<close> and
  \<^verbatim>\<open>new Date(v)\<close> all do, throws a TypeError when no primitive can be obtained from
  \<open>v\<close>. A parsed object inherits a working \<^verbatim>\<open>toString\<close> unless an own property of that
  name, which is never a function, hides it; the inherited \<^verbatim>\<open>valueOf\<close> returns the object
  itself, so it never helps. An array is converted by joining the conversions of its
  elements. Everything else is a primitive already.
\<close>

fun convertible :: "jsval \<Rightarrow> bool" where
  "convertible (JObj kvs) = (map_of kvs ''toString'' = None)"
| "convertible (JArr xs) = list_all convertible xs"
| "convertible v = True"

section \<open>The browser: storage, network, page\<close>

text \<open>
  \<^verbatim>\<open>fetch\<close> either rejects (\<open>NetworkError\<close>) or resolves to a response with an HTTP
  status whose body \<^verbatim>\<open>response.json()\<close> either fails to parse or parses to a value.
  The outcome of each call is an input of the handler that makes it. These are the
  outcomes of a request that settles; while a request stays pending, the handler that
  awaits it does nothing further.
\<close>

datatype body = Unparseable | Parsed jsval

datatype fetch_result = NetworkError | Response nat body

text \<open>Callbacks handed to \<^verbatim>\<open>setTimeout\<close>, named after what they do.\<close>

datatype callback = HideMessage | ExpireSession | GoToForum

text \<open>
  Everything a handler does to the page is logged, in order. A request is logged with
  its URL, its method, whether it carries \<^verbatim>\<open>credentials: 'include'\<close>, and the fields
  of the JSON object sent as its body (\<open>None\<close> when there is no body; the
  \<^verbatim>\<open>Content-Type\<close> header accompanies exactly the requests with a body).
\<close>

datatype event =
    PreventDefault
  | Fetch string string bool "(string \<times> string) list option"
  | ConsoleError string
  | SetTextContent string jsval
  | SetClassName string string
  | ClassAdd string string
  | ClassRemove string string
  | SetInnerHTML string string
  | SetDisplay string string
  | FormReset string
  | SetTimeout callback nat
  | Navigate string

record world =
  localStorage :: "string \<rightharpoonup> string"
  trace :: "event list"

definition emit :: "event \<Rightarrow> world \<Rightarrow> world" where
  "emit e w = w\<lparr>trace := trace w @ [e]\<rparr>"

text \<open>
  \<^verbatim>\<open>localStorage.getItem(k)\<close> is \<open>localStorage w k\<close>, with \<open>None\<close> for \<^verbatim>\<open>null\<close>.
  Removing an absent key does nothing. Storage is assumed available and within quota,
  and the elements the handlers look up by id are assumed present in the page.
\<close>

definition setItem :: "string \<Rightarrow> string \<Rightarrow> world \<Rightarrow> world" where
  "setItem k v w = w\<lparr>localStorage := (localStorage w)(k \<mapsto> v)\<rparr>"

definition removeItem :: "string \<Rightarrow> world \<Rightarrow> world" where
  "removeItem k w = w\<lparr>localStorage := (localStorage w)(k := None)\<rparr>"

text \<open>Projections of the log used to state what a handler did or did not do.\<close>

fun navigations :: "event list \<Rightarrow> string list" where
  "navigations [] = []"
| "navigations (Navigate p # es) = p # navigations es"
| "navigations (e # es) = navigations es"

fun fetches :: "event list \<Rightarrow> string list" where
  "fetches [] = []"
| "fetches (Fetch u m c b # es) = u # fetches es"
| "fetches (e # es) = fetches es"

fun messages :: "event list \<Rightarrow> jsval list" where
  "messages [] = []"
| "messages (SetTextContent i v # es) = (if i = ''message'' then v # messages es else messages es)"
| "messages (e # es) = messages es"

fun timeouts :: "event list \<Rightarrow> (callback \<times> nat) list" where
  "timeouts [] = []"
| "timeouts (SetTimeout c d # es) = (c, d) # timeouts es"
| "timeouts (e # es) = timeouts es"

section \<open>Helpers shared by the three modules\<close>

text \<open>
  The first thing \<^verbatim>\<open>showMessage\<close> does is assign the message to \<^verbatim>\<open>textContent\<close>. With a
  message that is not \<open>convertible\<close> this assignment throws before anything has happened,
  so every caller that passes a value taken from a response tests \<open>convertible\<close> first
  and goes to its \<^verbatim>\<open>catch\<close> block otherwise; \<open>showMessage\<close> itself is what happens when
  the assignment succeeds.
\<close>

definition showMessage :: "jsval \<Rightarrow> string \<Rightarrow> world \<Rightarrow> world" where
  "showMessage message type w =
     emit (SetTimeout HideMessage 5000)
       (emit (SetClassName ''message'' (''message message-'' @ type @ '' show''))
         (emit (SetTextContent ''message'' message) w))"

definition toggleLoading :: "bool \<Rightarrow> world \<Rightarrow> world" where
  "toggleLoading show w =
     (if show then emit (ClassAdd ''loading'' ''show'') w
      else emit (ClassRemove ''loading'' ''show'') w)"

text \<open>What each timer callback does when it fires.\<close>

fun run_callback :: "callback \<Rightarrow> world \<Rightarrow> world" where
  "run_callback HideMessage w = emit (ClassRemove ''message'' ''show'') w"
| "run_callback ExpireSession w =
     emit (Navigate ''index.html'') (removeItem ''isLoggedIn'' (removeItem ''user'' w))"
| "run_callback GoToForum w = emit (Navigate ''forum.html'') w"

section \<open>Strings\<close>

text \<open>
  The characters removed by \<^verbatim>\<open>String.prototype.trim\<close> are those matched by
  \<^verbatim>\<open>\s\<close> in a regular expression (white space and line terminators); among the code
  units below 256 these are TAB, LF, VT, FF, CR, SPACE and NBSP.
\<close>

definition is_space :: "char \<Rightarrow> bool" where
  "is_space c =
     (c \<in> set [CHR 0x09, CHR 0x0A, CHR 0x0B, CHR 0x0C, CHR 0x0D, CHR 0x20, CHR 0xA0])"

definition trim :: "string \<Rightarrow> string" where
  "trim s = rev (dropWhile is_space (rev (dropWhile is_space s)))"

section \<open>What the sources leave to the platform\<close>

text \<open>
  The profile and login modules read \<^verbatim>\<open>API_BASE_URL\<close> from \<^verbatim>\<open>config.js\<close>, which is
  not among the sources: it is the parameter \<open>api_base\<close>. The remaining fields stand for
  built-ins whose exact output no handler inspects:
  \<^item> \<open>json_stringify v\<close> is the string that \<^verbatim>\<open>localStorage.setItem(k, JSON.stringify(v))\<close>
    stores;
  \<^item> \<open>js_to_string v\<close> is the string a \<open>convertible\<close> value \<open>v\<close> contributes to
    \<^verbatim>\<open>v + '...'\<close>;
  \<^item> \<open>format_date v\<close> is the profile page's \<^verbatim>\<open>formatDate(v)\<close> (locale formatting) for a
    \<open>convertible\<close> value \<open>v\<close>;
  \<^item> \<open>post_html p\<close> is the forum page's \<^verbatim>\<open>createPostHTML(p)\<close> for a post \<open>p\<close> on which
    it does not throw (HTML escaping through the DOM and a date relative to the clock).
  Where the built-in throws instead, the handlers below take their \<^verbatim>\<open>catch\<close> branch.
\<close>

record env =
  api_base :: string
  json_stringify :: "jsval \<Rightarrow> string"
  js_to_string :: "jsval \<Rightarrow> string"
  format_date :: "jsval \<Rightarrow> string"
  post_html :: "jsval \<Rightarrow> string"

section \<open>Forum page (js/forum.js)\<close>

definition API_BASE_URL :: string where
  "API_BASE_URL = ''https://your-backend-url.onrender.com/api''"

definition forum_checkAuthentication_catch :: "world \<Rightarrow> bool \<times> world" where
  "forum_checkAuthentication_catch w =
     (False, showMessage (JStr ''Failed to verify authentication'') ''error''
               (emit (ConsoleError ''Authentication check error:'') w))"

definition forum_checkAuthentication :: "fetch_result \<Rightarrow> world \<Rightarrow> bool \<times> world" where
  "forum_checkAuthentication r w =
     (if localStorage w ''isLoggedIn'' \<noteq> Some ''true''
      then (False, emit (Navigate ''index.html'') w)
      else
        let w1 = emit (Fetch (API_BASE_URL @ ''/users/profile.php'') ''GET'' True None) w in
        case r of
          NetworkError \<Rightarrow> forum_checkAuthentication_catch w1
        | Response status Unparseable \<Rightarrow> forum_checkAuthentication_catch w1
        | Response status (Parsed data) \<Rightarrow>
            if nullish data then forum_checkAuthentication_catch w1
            else if \<not> truthy (get_prop data ''success'')
            then (False, emit (Navigate ''index.html'')
                           (removeItem ''isLoggedIn'' (removeItem ''user'' w1)))
            else (True, w1))"

definition forum_handleLogout_catch :: "world \<Rightarrow> world" where
  "forum_handleLogout_catch w =
     emit (Navigate ''index.html'')
       (removeItem ''isLoggedIn'' (removeItem ''user'' (emit (ConsoleError ''Logout error:'') w)))"

definition forum_handleLogout :: "fetch_result \<Rightarrow> world \<Rightarrow> world" where
  "forum_handleLogout r w =
     (let w1 = emit (Fetch (API_BASE_URL @ ''/auth/logout.php'') ''POST'' True None) w in
      case r of
        NetworkError \<Rightarrow> forum_handleLogout_catch w1
      | Response status Unparseable \<Rightarrow> forum_handleLogout_catch w1
      | Response status (Parsed data) \<Rightarrow>
          emit (Navigate ''index.html'') (removeItem ''isLoggedIn'' (removeItem ''user'' w1)))"

definition no_posts_html :: string where
  "no_posts_html =
     ''<div class='' @ [CHR 0x22] @ ''no-posts'' @ [CHR 0x22]
       @ ''>No posts yet. Be the first to share your thoughts!</div>''"

definition failed_posts_html :: string where
  "failed_posts_html =
     ''<div class='' @ [CHR 0x22] @ ''no-posts'' @ [CHR 0x22] @ ''>Failed to load posts</div>''"

definition loadPosts_catch :: "world \<Rightarrow> world" where
  "loadPosts_catch w =
     emit (SetInnerHTML ''postsContainer'' failed_posts_html)
       (showMessage (JStr ''Failed to connect to server'') ''error''
         (emit (ConsoleError ''Load posts error:'') (toggleLoading False w)))"

text \<open>
  \<^verbatim>\<open>createPostHTML(post)\<close> reads four properties of the post, which throws on \<^verbatim>\<open>null\<close>,
  and converts each to a string (\<^verbatim>\<open>escapeHtml\<close> through \<^verbatim>\<open>textContent\<close>, \<^verbatim>\<open>formatDate\<close>
  through \<^verbatim>\<open>new Date\<close>). It has no effect on the page, so all that matters of a throw is
  that it happens.
\<close>

definition createPostHTML_returns :: "jsval \<Rightarrow> bool" where
  "createPostHTML_returns post =
     (\<not> nullish post
      \<and> convertible (get_prop post ''title'')
      \<and> convertible (get_prop post ''author_name'')
      \<and> convertible (get_prop post ''created_at'')
      \<and> convertible (get_prop post ''content''))"

text \<open>
  In the success branch \<^verbatim>\<open>data.data.length\<close> throws when \<^verbatim>\<open>data.data\<close> is missing,
  \<^verbatim>\<open>data.data.map\<close> is a function only on an array, and \<^verbatim>\<open>createPostHTML\<close> may throw
  on an element; in the failure branch \<^verbatim>\<open>showMessage(data.message)\<close> may throw. Each of
  these lands in the \<^verbatim>\<open>catch\<close> block.
\<close>

definition loadPosts :: "env \<Rightarrow> fetch_result \<Rightarrow> world \<Rightarrow> world" where
  "loadPosts env r w =
     (let w1 = emit (Fetch (API_BASE_URL @ ''/posts/list.php'') ''GET'' True None)
                 (toggleLoading True w) in
      case r of
        NetworkError \<Rightarrow> loadPosts_catch w1
      | Response status Unparseable \<Rightarrow> loadPosts_catch w1
      | Response status (Parsed data) \<Rightarrow>
          let w2 = toggleLoading False w1 in
          if nullish data then loadPosts_catch w2
          else if truthy (get_prop data ''success'') then
            (let posts = get_prop data ''data'' in
             if nullish posts then loadPosts_catch w2
             else if get_prop posts ''length'' = JNum 0
             then emit (SetInnerHTML ''postsContainer'' no_posts_html) w2
             else
               case posts of
                 JArr ps \<Rightarrow>
                   if list_all createPostHTML_returns ps
                   then emit (SetInnerHTML ''postsContainer'' (concat (map (post_html env) ps))) w2
                   else loadPosts_catch w2
               | _ \<Rightarrow> loadPosts_catch w2)
          else if convertible (get_prop data ''message'') then
            emit (SetInnerHTML ''postsContainer'' failed_posts_html)
              (showMessage (get_prop data ''message'') ''error'' w2)
          else loadPosts_catch w2)"

definition handleCreatePost_catch :: "world \<Rightarrow> world" where
  "handleCreatePost_catch w =
     showMessage (JStr ''Failed to create post. Please try again.'') ''error''
       (emit (ConsoleError ''Create post error:'') w)"

text \<open>
  \<open>postTitle\<close> and \<open>postContent\<close> are the values of the two form fields, \<open>r\<close> the outcome
  of the create request and \<open>r_list\<close> the outcome of the list request that
  \<^verbatim>\<open>loadPosts()\<close> makes on success. \<^verbatim>\<open>loadPosts()\<close> is not awaited, but nothing follows
  it in the handler, so its effects come last. When \<^verbatim>\<open>showMessage(data.message, ...)\<close>
  throws, in the success branch or in the failure branch, the \<^verbatim>\<open>catch\<close> block runs and
  the rest of the branch does not.
\<close>

definition handleCreatePost ::
  "env \<Rightarrow> string \<Rightarrow> string \<Rightarrow> fetch_result \<Rightarrow> fetch_result \<Rightarrow> world \<Rightarrow> world" where
  "handleCreatePost env postTitle postContent r r_list w =
     (let w0 = emit PreventDefault w;
          title = trim postTitle;
          content = trim postContent in
      if length title < 5 \<or> length title > 200
      then showMessage (JStr ''Title must be between 5 and 200 characters'') ''error'' w0
      else if length content < 10 \<or> length content > 5000
      then showMessage (JStr ''Content must be between 10 and 5000 characters'') ''error'' w0
      else
        let w1 = emit (Fetch (API_BASE_URL @ ''/posts/create.php'') ''POST'' True
                         (Some [(''title'', title), (''content'', content)])) w0 in
        case r of
          NetworkError \<Rightarrow> handleCreatePost_catch w1
        | Response status Unparseable \<Rightarrow> handleCreatePost_catch w1
        | Response status (Parsed data) \<Rightarrow>
            if nullish data then handleCreatePost_catch w1
            else if truthy (get_prop data ''success'') then
              (if convertible (get_prop data ''message'') then
                 loadPosts env r_list
                   (emit (SetTextContent ''contentCount'' (JStr ''0''))
                     (emit (SetTextContent ''titleCount'' (JStr ''0''))
                       (emit (FormReset ''createPostForm'')
                         (showMessage (get_prop data ''message'') ''success'' w1))))
               else handleCreatePost_catch w1)
            else if status = 401 then
              emit (SetTimeout ExpireSession 2000)
                (showMessage (JStr ''Session expired. Please login again.'') ''error'' w1)
            else if convertible (get_prop data ''message'')
            then showMessage (get_prop data ''message'') ''error'' w1
            else handleCreatePost_catch w1)"

text \<open>
  The page's \<^verbatim>\<open>DOMContentLoaded\<close> handler: the guard, then the first load of the posts.
  (The listeners it attaches afterwards are the handlers above.)
\<close>

definition forum_DOMContentLoaded :: "env \<Rightarrow> fetch_result \<Rightarrow> fetch_result \<Rightarrow> world \<Rightarrow> world" where
  "forum_DOMContentLoaded env r r_list w =
     (case forum_checkAuthentication r w of
        (isAuthenticated, w') \<Rightarrow> if \<not> isAuthenticated then w' else loadPosts env r_list w')"

section \<open>Profile page\<close>

definition profile_checkAuthentication :: "world \<Rightarrow> bool \<times> world" where
  "profile_checkAuthentication w =
     (if localStorage w ''isLoggedIn'' \<noteq> Some ''true''
      then (False, emit (Navigate ''index.html'') w)
      else (True, w))"

definition profile_handleLogout_catch :: "world \<Rightarrow> world" where
  "profile_handleLogout_catch w =
     emit (Navigate ''index.html'')
       (removeItem ''isLoggedIn'' (removeItem ''user'' (emit (ConsoleError ''Logout error:'') w)))"

text \<open>Here the response body is never read, so only a rejected \<^verbatim>\<open>fetch\<close> is caught.\<close>

definition profile_handleLogout :: "env \<Rightarrow> fetch_result \<Rightarrow> world \<Rightarrow> world" where
  "profile_handleLogout env r w =
     (let w1 = emit (Fetch (api_base env @ ''/auth/logout.php'') ''POST'' True None) w in
      case r of
        NetworkError \<Rightarrow> profile_handleLogout_catch w1
      | Response status b \<Rightarrow>
          emit (Navigate ''index.html'') (removeItem ''isLoggedIn'' (removeItem ''user'' w1)))"

definition loadProfile_catch :: "world \<Rightarrow> world" where
  "loadProfile_catch w =
     showMessage (JStr ''Failed to load profile information'') ''error''
       (emit (ConsoleError ''Load profile error:'') (toggleLoading False w))"

text \<open>
  The success branch writes the four fields one after the other; a field that cannot be
  converted throws at its own assignment (for \<^verbatim>\<open>created_at\<close>, inside \<^verbatim>\<open>formatDate\<close>), with
  the earlier fields already written, and the \<^verbatim>\<open>catch\<close> block runs: the card is not
  shown and the record is not stored.
\<close>

definition loadProfile :: "env \<Rightarrow> fetch_result \<Rightarrow> world \<Rightarrow> world" where
  "loadProfile env r w =
     (let w1 = emit (Fetch (api_base env @ ''/users/profile.php'') ''GET'' True None)
                 (toggleLoading True w) in
      case r of
        NetworkError \<Rightarrow> loadProfile_catch w1
      | Response status Unparseable \<Rightarrow> loadProfile_catch w1
      | Response status (Parsed data) \<Rightarrow>
          let w2 = toggleLoading False w1 in
          if nullish data then loadProfile_catch w2
          else if truthy (get_prop data ''success'') then
            (let user = get_prop data ''data'' in
             if nullish user then loadProfile_catch w2
             else if \<not> convertible (get_prop user ''name'') then loadProfile_catch w2
             else
               let w3 = emit (SetTextContent ''profileName'' (get_prop user ''name'')) w2 in
               if \<not> convertible (get_prop user ''email'') then loadProfile_catch w3
               else
                 let w4 = emit (SetTextContent ''profileEmail'' (get_prop user ''email'')) w3 in
                 if \<not> convertible (get_prop user ''user_id'') then loadProfile_catch w4
                 else
                   let w5 = emit (SetTextContent ''profileUserId'' (get_prop user ''user_id'')) w4 in
                   if \<not> convertible (get_prop user ''created_at'') then loadProfile_catch w5
                   else
                     setItem ''user'' (json_stringify env user)
                       (emit (SetDisplay ''profileCard'' ''block'')
                         (emit (SetTextContent ''profileCreatedAt''
                                  (JStr (format_date env (get_prop user ''created_at'')))) w5)))
          else if status = 401 then
            emit (SetTimeout ExpireSession 2000)
              (showMessage (JStr ''Session expired. Please login again.'') ''error'' w2)
          else if convertible (get_prop data ''message'')
          then showMessage (get_prop data ''message'') ''error'' w2
          else loadProfile_catch w2)"

definition profile_DOMContentLoaded :: "env \<Rightarrow> fetch_result \<Rightarrow> world \<Rightarrow> world" where
  "profile_DOMContentLoaded env r w =
     (case profile_checkAuthentication w of
        (ok, w') \<Rightarrow> if \<not> ok then w' else loadProfile env r w')"

section \<open>Login and registration page\<close>

text \<open>
  The regular expression \<^verbatim>\<open>/^[^\s@]+@[^\s@]+\.[^\s@]+$/\<close>, piece by piece: \<open>plus_then p k\<close>
  matches one or more characters of the class \<open>p\<close> followed by whatever \<open>k\<close> matches
  (trying every split), \<open>lit_then c k\<close> the character \<open>c\<close> followed by \<open>k\<close>, and the end
  of the input closes the match.
\<close>

fun plus_then :: "(char \<Rightarrow> bool) \<Rightarrow> (string \<Rightarrow> bool) \<Rightarrow> string \<Rightarrow> bool" where
  "plus_then p k [] = False"
| "plus_then p k (c # cs) = (p c \<and> (k cs \<or> plus_then p k cs))"

fun lit_then :: "char \<Rightarrow> (string \<Rightarrow> bool) \<Rightarrow> string \<Rightarrow> bool" where
  "lit_then c k [] = False"
| "lit_then c k (x # xs) = (x = c \<and> k xs)"

definition not_space_at :: "char \<Rightarrow> bool" where
  "not_space_at c = (\<not> is_space c \<and> c \<noteq> CHR ''@'')"

definition isValidEmail :: "string \<Rightarrow> bool" where
  "isValidEmail email =
     plus_then not_space_at
       (lit_then (CHR ''@'')
         (plus_then not_space_at
           (lit_then (CHR ''.'')
             (plus_then not_space_at (\<lambda>rest. rest = []))))) email"

definition handleRegister_catch :: "world \<Rightarrow> world" where
  "handleRegister_catch w =
     showMessage (JStr ''Failed to connect to server. Please try again later.'') ''error''
       (emit (ConsoleError ''Registration error:'') (toggleLoading False w))"

text \<open>
  On success the message is built with \<^verbatim>\<open>data.message + ' Please login to continue.'\<close>,
  which throws when \<^verbatim>\<open>data.message\<close> cannot be converted; so does
  \<^verbatim>\<open>showMessage(data.message, 'error')\<close> on failure. Either way the \<^verbatim>\<open>catch\<close> block runs.
\<close>

definition handleRegister ::
  "env \<Rightarrow> string \<Rightarrow> string \<Rightarrow> string \<Rightarrow> fetch_result \<Rightarrow> world \<Rightarrow> world" where
  "handleRegister env registerName registerEmail registerPassword r w =
     (let w0 = emit PreventDefault w;
          name = trim registerName;
          email = trim registerEmail;
          password = registerPassword in
      if length name < 3 \<or> length name > 100
      then showMessage (JStr ''Name must be between 3 and 100 characters'') ''error'' w0
      else if \<not> isValidEmail email \<or> length email > 100
      then showMessage (JStr ''Please enter a valid email address'') ''error'' w0
      else if length password < 6
      then showMessage (JStr ''Password must be at least 6 characters long'') ''error'' w0
      else
        let w1 = emit (Fetch (api_base env @ ''/auth/register.php'') ''POST'' False
                         (Some [(''name'', name), (''email'', email), (''password'', password)]))
                   (toggleLoading True w0) in
        case r of
          NetworkError \<Rightarrow> handleRegister_catch w1
        | Response status Unparseable \<Rightarrow> handleRegister_catch w1
        | Response status (Parsed data) \<Rightarrow>
            let w2 = toggleLoading False w1 in
            if nullish data then handleRegister_catch w2
            else if truthy (get_prop data ''success'') then
              (if convertible (get_prop data ''message'') then
                 emit (FormReset ''registerForm'')
                   (showMessage
                      (JStr (js_to_string env (get_prop data ''message'')
                               @ '' Please login to continue.''))
                      ''success'' w2)
               else handleRegister_catch w2)
            else if convertible (get_prop data ''message'')
            then showMessage (get_prop data ''message'') ''error'' w2
            else handleRegister_catch w2)"

definition handleLogin_catch :: "world \<Rightarrow> world" where
  "handleLogin_catch w =
     showMessage (JStr ''Failed to connect to server. Please try again later.'') ''error''
       (emit (ConsoleError ''Login error:'') (toggleLoading False w))"

text \<open>
  On success both cache entries are written first; \<^verbatim>\<open>data.message + ' Redirecting...'\<close>
  comes after them, and when it throws the \<^verbatim>\<open>catch\<close> block runs with the cache already
  written and no redirect scheduled.
\<close>

definition handleLogin :: "env \<Rightarrow> string \<Rightarrow> string \<Rightarrow> fetch_result \<Rightarrow> world \<Rightarrow> world" where
  "handleLogin env loginEmail loginPassword r w =
     (let w0 = emit PreventDefault w;
          email = trim loginEmail;
          password = loginPassword in
      if \<not> isValidEmail email
      then showMessage (JStr ''Please enter a valid email address'') ''error'' w0
      else if password = []
      then showMessage (JStr ''Password is required'') ''error'' w0
      else
        let w1 = emit (Fetch (api_base env @ ''/auth/login.php'') ''POST'' True
                         (Some [(''email'', email), (''password'', password)]))
                   (toggleLoading True w0) in
        case r of
          NetworkError \<Rightarrow> handleLogin_catch w1
        | Response status Unparseable \<Rightarrow> handleLogin_catch w1
        | Response status (Parsed data) \<Rightarrow>
            let w2 = toggleLoading False w1 in
            if nullish data then handleLogin_catch w2
            else if truthy (get_prop data ''success'') then
              (let w3 = setItem ''isLoggedIn'' ''true''
                          (setItem ''user'' (json_stringify env (get_prop data ''data'')) w2) in
               if convertible (get_prop data ''message'') then
                 emit (SetTimeout GoToForum 1000)
                   (showMessage
                      (JStr (js_to_string env (get_prop data ''message'') @ '' Redirecting...''))
                      ''success'' w3)
               else handleLogin_catch w3)
            else if convertible (get_prop data ''message'')
            then showMessage (get_prop data ''message'') ''error'' w2
            else handleLogin_catch w2)"

definition verifySession :: "env \<Rightarrow> fetch_result \<Rightarrow> world \<Rightarrow> world" where
  "verifySession env r w =
     (let w1 = emit (Fetch (api_base env @ ''/users/profile.php'') ''GET'' True None) w;
          caught = emit (ConsoleError ''Session verification error:'') w1 in
      case r of
        NetworkError \<Rightarrow> caught
      | Response status Unparseable \<Rightarrow> caught
      | Response status (Parsed data) \<Rightarrow>
          if nullish data then caught
          else if truthy (get_prop data ''success'') then emit (Navigate ''forum.html'') w1
          else removeItem ''isLoggedIn'' (removeItem ''user'' w1))"

definition checkLoginStatus :: "env \<Rightarrow> fetch_result \<Rightarrow> world \<Rightarrow> world" where
  "checkLoginStatus env r w =
     (if localStorage w ''isLoggedIn'' = Some ''true'' then verifySession env r w else w)"

section \<open>Outcomes of a call, as the handlers tell them apart\<close>

text \<open>
  Every handler that reads the body awaits \<^verbatim>\<open>fetch\<close> and \<^verbatim>\<open>response.json()\<close> inside
  \<^verbatim>\<open>try\<close> and then branches on \<^verbatim>\<open>data.success\<close>. So its \<^verbatim>\<open>catch\<close> block runs when
  \<^verbatim>\<open>fetch\<close> rejects, when the body does not parse, and when the body parses to
  \<^verbatim>\<open>null\<close> (reading \<^verbatim>\<open>data.success\<close> throws); its success branch runs when
  \<^verbatim>\<open>data.success\<close> is truthy, whatever the status; its failure branch otherwise.
\<close>

fun call_throws :: "fetch_result \<Rightarrow> bool" where
  "call_throws NetworkError = True"
| "call_throws (Response status Unparseable) = True"
| "call_throws (Response status (Parsed data)) = nullish data"

fun reports_success :: "fetch_result \<Rightarrow> bool" where
  "reports_success NetworkError = False"
| "reports_success (Response status Unparseable) = False"
| "reports_success (Response status (Parsed data)) =
     (\<not> nullish data \<and> truthy (get_prop data ''success''))"

fun reports_failure :: "fetch_result \<Rightarrow> bool" where
  "reports_failure NetworkError = False"
| "reports_failure (Response status Unparseable) = False"
| "reports_failure (Response status (Parsed data)) =
     (\<not> nullish data \<and> \<not> truthy (get_prop data ''success''))"

text \<open>The parsed body of a response, and its \<^verbatim>\<open>data\<close> and \<^verbatim>\<open>message\<close> properties.\<close>

fun parsed_body :: "fetch_result \<Rightarrow> jsval" where
  "parsed_body (Response status (Parsed data)) = data"
| "parsed_body r = JUndefined"

definition payload :: "fetch_result \<Rightarrow> jsval" where
  "payload r = get_prop (parsed_body r) ''data''"

definition message_of :: "fetch_result \<Rightarrow> jsval" where
  "message_of r = get_prop (parsed_body r) ''message''"

text \<open>\<^verbatim>\<open>response.status === n\<close>, for a request that got a response.\<close>

fun has_status :: "fetch_result \<Rightarrow> nat \<Rightarrow> bool" where
  "has_status NetworkError n = False"
| "has_status (Response status b) n = (status = n)"

text \<open>The elements whose \<^verbatim>\<open>style.display\<close> was set, with the value.\<close>

fun displays :: "event list \<Rightarrow> (string \<times> string) list" where
  "displays [] = []"
| "displays (SetDisplay i v # es) = (i, v) # displays es"
| "displays (e # es) = displays es"

section \<open>Concrete inputs for the examples\<close>

text \<open>
  A platform whose built-ins render a string as itself and anything else as a
  placeholder, a browser whose cache holds only the logged-in flag, a browser with an
  empty cache, and four server answers, one of them a success whose message cannot be
  converted to a string.
\<close>

fun sample_render :: "jsval \<Rightarrow> string" where
  "sample_render (JStr s) = s"
| "sample_render v = ''[value]''"

definition sample_env :: env where
  "sample_env =
     \<lparr>api_base = ''https://forum.example/api'',
      json_stringify = sample_render,
      js_to_string = sample_render,
      format_date = sample_render,
      post_html = sample_render\<rparr>"

definition flagged_world :: world where
  "flagged_world = \<lparr>localStorage = [''isLoggedIn'' \<mapsto> ''true''], trace = []\<rparr>"

definition empty_world :: world where
  "empty_world = \<lparr>localStorage = Map.empty, trace = []\<rparr>"

definition profile_ok :: jsval where
  "profile_ok =
     JObj [(''success'', JBool True),
           (''message'', JStr ''Welcome''),
           (''data'', JObj [(''user_id'', JNum 7), (''name'', JStr ''Ann''),
                            (''email'', JStr ''ann@example.org''),
                            (''created_at'', JStr ''2024-01-01 10:00:00'')])]"

definition refusal :: jsval where
  "refusal = JObj [(''success'', JBool False), (''message'', JStr ''Unauthorized'')]"

definition odd_message :: jsval where
  "odd_message =
     JObj [(''success'', JBool True), (''message'', JObj [(''toString'', JNum 1)])]"

definition no_posts :: jsval where
  "no_posts = JObj [(''success'', JBool True), (''data'', JArr [])]"

section \<open>Basic facts about the log and the store\<close>

lemma navigations_append: "navigations (xs @ ys) = navigations xs @ navigations ys"
  by (induction xs rule: navigations.induct) simp_all

lemma fetches_append: "fetches (xs @ ys) = fetches xs @ fetches ys"
  by (induction xs rule: fetches.induct) simp_all

lemma messages_append: "messages (xs @ ys) = messages xs @ messages ys"
  by (induction xs rule: messages.induct) simp_all

lemma timeouts_append: "timeouts (xs @ ys) = timeouts xs @ timeouts ys"
  by (induction xs rule: timeouts.induct) simp_all

lemma displays_append: "displays (xs @ ys) = displays xs @ displays ys"
  by (induction xs rule: displays.induct) simp_all

lemma trace_emit: "trace (emit e w) = trace w @ [e]"
  by (simp add: emit_def)

lemma localStorage_emit: "localStorage (emit e w) = localStorage w"
  by (simp add: emit_def)

lemma trace_setItem: "trace (setItem k v w) = trace w"
  by (simp add: setItem_def)

lemma trace_removeItem: "trace (removeItem k w) = trace w"
  by (simp add: removeItem_def)

lemma localStorage_setItem: "localStorage (setItem k v w) = (localStorage w)(k \<mapsto> v)"
  by (simp add: setItem_def)

lemma localStorage_removeItem: "localStorage (removeItem k w) = (localStorage w)(k := None)"
  by (simp add: removeItem_def)

lemma trace_showMessage:
  "trace (showMessage m t w) =
     trace w @ [SetTextContent ''message'' m,
                SetClassName ''message'' (''message message-'' @ t @ '' show''),
                SetTimeout HideMessage 5000]"
  by (simp add: showMessage_def trace_emit)

lemma localStorage_showMessage: "localStorage (showMessage m t w) = localStorage w"
  by (simp add: showMessage_def localStorage_emit)

lemma trace_toggleLoading:
  "trace (toggleLoading b w) =
     trace w @ [if b then ClassAdd ''loading'' ''show'' else ClassRemove ''loading'' ''show'']"
  by (simp add: toggleLoading_def trace_emit)

lemma localStorage_toggleLoading: "localStorage (toggleLoading b w) = localStorage w"
  by (simp add: toggleLoading_def localStorage_emit)

lemmas world_simps =
  trace_emit localStorage_emit trace_setItem trace_removeItem
  localStorage_setItem localStorage_removeItem
  trace_showMessage localStorage_showMessage
  trace_toggleLoading localStorage_toggleLoading
  navigations_append fetches_append messages_append timeouts_append displays_append

text \<open>The three outcomes cover every result of a call and exclude one another.\<close>

lemma outcome_cases: "call_throws r \<or> reports_success r \<or> reports_failure r"
  by (cases r rule: call_throws.cases) auto

lemma outcome_exclusive:
  "\<not> (call_throws r \<and> reports_success r)"
  "\<not> (call_throws r \<and> reports_failure r)"
  "\<not> (reports_success r \<and> reports_failure r)"
  by (cases r rule: call_throws.cases; auto)+

section \<open>The loaders\<close>

lemma loadPosts_effects:
  "localStorage (loadPosts env r w) = localStorage w"
  "fetches (trace (loadPosts env r w)) = fetches (trace w) @ [API_BASE_URL @ ''/posts/list.php'']"
  "navigations (trace (loadPosts env r w)) = navigations (trace w)"
  by (simp_all add: loadPosts_def loadPosts_catch_def world_simps Let_def
      split: fetch_result.split body.split jsval.split)

text \<open>
  \<^verbatim>\<open>loadProfile\<close> shows the card and stores the record exactly when the call reports
  success, the body carries a record, and each of the four fields it displays converts
  to a string; in every other case it leaves both alone.
\<close>

lemma loadProfile_effects:
  "fetches (trace (loadProfile env r w)) =
     fetches (trace w) @ [api_base env @ ''/users/profile.php'']"
  "navigations (trace (loadProfile env r w)) = navigations (trace w)"
  "localStorage (loadProfile env r w) =
     (if reports_success r \<and> \<not> nullish (payload r)
         \<and> convertible (get_prop (payload r) ''name'')
         \<and> convertible (get_prop (payload r) ''email'')
         \<and> convertible (get_prop (payload r) ''user_id'')
         \<and> convertible (get_prop (payload r) ''created_at'')
      then (localStorage w)(''user'' \<mapsto> json_stringify env (payload r))
      else localStorage w)"
  "displays (trace (loadProfile env r w)) =
     displays (trace w) @
       (if reports_success r \<and> \<not> nullish (payload r)
           \<and> convertible (get_prop (payload r) ''name'')
           \<and> convertible (get_prop (payload r) ''email'')
           \<and> convertible (get_prop (payload r) ''user_id'')
           \<and> convertible (get_prop (payload r) ''created_at'')
        then [(''profileCard'', ''block'')] else [])"
  by (simp_all add: loadProfile_def loadProfile_catch_def world_simps Let_def payload_def
      split: fetch_result.split body.split)

lemma loadProfile_without_success:
  assumes "\<not> reports_success r"
  shows "displays (trace (loadProfile env r w)) = displays (trace w)"
    and "localStorage (loadProfile env r w) = localStorage w"
  using assms by (simp_all add: loadProfile_effects)

section \<open>The forum page's guard\<close>

lemma forum_guard_success:
  "reports_success r \<Longrightarrow> localStorage w ''isLoggedIn'' = Some ''true'' \<Longrightarrow>
     forum_checkAuthentication r w =
       (True, emit (Fetch (API_BASE_URL @ ''/users/profile.php'') ''GET'' True None) w)"
  by (cases r rule: call_throws.cases) (simp_all add: forum_checkAuthentication_def)

lemma forum_guard_throws:
  "call_throws r \<Longrightarrow> localStorage w ''isLoggedIn'' = Some ''true'' \<Longrightarrow>
     forum_checkAuthentication r w =
       forum_checkAuthentication_catch
         (emit (Fetch (API_BASE_URL @ ''/users/profile.php'') ''GET'' True None) w)"
  by (cases r rule: call_throws.cases) (simp_all add: forum_checkAuthentication_def)

lemma forum_guard_failure:
  "reports_failure r \<Longrightarrow> localStorage w ''isLoggedIn'' = Some ''true'' \<Longrightarrow>
     forum_checkAuthentication r w =
       (False, emit (Navigate ''index.html'') (removeItem ''isLoggedIn'' (removeItem ''user''
         (emit (Fetch (API_BASE_URL @ ''/users/profile.php'') ''GET'' True None) w))))"
  by (cases r rule: call_throws.cases) (simp_all add: forum_checkAuthentication_def)

lemma forum_guard_result:
  "fst (forum_checkAuthentication r w) =
     (localStorage w ''isLoggedIn'' = Some ''true'' \<and> reports_success r)"
  by (cases r rule: call_throws.cases)
     (simp_all add: forum_checkAuthentication_def forum_checkAuthentication_catch_def Let_def)

text \<open>
  C1, as the code has it: on a forum page load with the cached flag \<^verbatim>\<open>'true'\<close> and a
  profile confirmation that reports success, the guard returns \<^verbatim>\<open>true\<close> having issued
  exactly the profile request, the page goes on to load the posts, and the guard leaves
  the cache as it found it: it does not write the record the server returned.
\<close>

theorem forum_guard_authorizes_without_cache_write:
  assumes "localStorage w ''isLoggedIn'' = Some ''true''" and "reports_success r"
  shows "fst (forum_checkAuthentication r w)
       \<and> localStorage (snd (forum_checkAuthentication r w)) = localStorage w
       \<and> trace (snd (forum_checkAuthentication r w)) =
           trace w @ [Fetch (API_BASE_URL @ ''/users/profile.php'') ''GET'' True None]
       \<and> forum_DOMContentLoaded env r r_list w =
           loadPosts env r_list (snd (forum_checkAuthentication r w))"
  using assms by (simp add: forum_guard_success forum_DOMContentLoaded_def world_simps)

theorem forum_guard_authorizes_without_cache_write_witness:
  "localStorage flagged_world ''isLoggedIn'' = Some ''true''
   \<and> reports_success (Response 200 (Parsed profile_ok))
   \<and> fst (forum_checkAuthentication (Response 200 (Parsed profile_ok)) flagged_world)
   \<and> localStorage (snd (forum_checkAuthentication (Response 200 (Parsed profile_ok)) flagged_world))
       = localStorage flagged_world"
proof -
  have a: "localStorage flagged_world ''isLoggedIn'' = Some ''true''"
    by (simp add: flagged_world_def)
  have b: "reports_success (Response 200 (Parsed profile_ok))"
    by (simp add: profile_ok_def)
  from forum_guard_authorizes_without_cache_write [OF a b] a b show ?thesis by blast
qed

text \<open>
  C1 as stated fails: the cache holds the flag and no user record, the server confirms
  the session and returns a record, the guard authorizes, and the cache still holds no
  user record.
\<close>

theorem forum_guard_cache_refresh_counterexample:
  "localStorage flagged_world ''isLoggedIn'' = Some ''true''
   \<and> reports_success (Response 200 (Parsed profile_ok))
   \<and> fst (forum_checkAuthentication (Response 200 (Parsed profile_ok)) flagged_world)
   \<and> localStorage (snd (forum_checkAuthentication (Response 200 (Parsed profile_ok)) flagged_world))
       ''user'' = None"
  by (simp add: forum_checkAuthentication_def flagged_world_def profile_ok_def world_simps)

text \<open>
  C2, as the code has it: with the cached flag \<^verbatim>\<open>'true'\<close>, the forum page's guard issues
  the profile request and reports success exactly when that call reports success. The
  profile page's guard reports success on the flag alone, with no request; there the
  confirmation is the profile request that \<^verbatim>\<open>loadProfile\<close> issues right after the guard,
  and when that call does not report success the profile card is not shown and the
  cache is left as it was.
\<close>

theorem cached_flag_is_confirmed_by_server:
  assumes "localStorage w ''isLoggedIn'' = Some ''true''"
  shows "fst (forum_checkAuthentication r w) = reports_success r
       \<and> fetches (trace (snd (forum_checkAuthentication r w))) =
           fetches (trace w) @ [API_BASE_URL @ ''/users/profile.php'']
       \<and> profile_checkAuthentication w = (True, w)
       \<and> profile_DOMContentLoaded env r w = loadProfile env r w
       \<and> fetches (trace (loadProfile env r w)) =
           fetches (trace w) @ [api_base env @ ''/users/profile.php'']
       \<and> (\<not> reports_success r \<longrightarrow>
            displays (trace (loadProfile env r w)) = displays (trace w)
            \<and> localStorage (loadProfile env r w) = localStorage w)"
proof (intro conjI impI)
  show "fst (forum_checkAuthentication r w) = reports_success r"
    using assms by (simp add: forum_guard_result)
  show "fetches (trace (snd (forum_checkAuthentication r w))) =
           fetches (trace w) @ [API_BASE_URL @ ''/users/profile.php'']"
    using assms
    by (cases r rule: call_throws.cases)
       (simp_all add: forum_checkAuthentication_def forum_checkAuthentication_catch_def
          world_simps Let_def)
  show "profile_checkAuthentication w = (True, w)"
    using assms by (simp add: profile_checkAuthentication_def)
  then show "profile_DOMContentLoaded env r w = loadProfile env r w"
    by (simp add: profile_DOMContentLoaded_def)
  show "fetches (trace (loadProfile env r w)) =
           fetches (trace w) @ [api_base env @ ''/users/profile.php'']"
    by (rule loadProfile_effects(1))
qed (simp_all add: loadProfile_without_success)

theorem cached_flag_is_confirmed_by_server_witness:
  "localStorage flagged_world ''isLoggedIn'' = Some ''true''
   \<and> \<not> reports_success (Response 401 (Parsed refusal))
   \<and> fst (forum_checkAuthentication (Response 401 (Parsed refusal)) flagged_world)
       = reports_success (Response 401 (Parsed refusal))
   \<and> profile_checkAuthentication flagged_world = (True, flagged_world)
   \<and> displays (trace (loadProfile sample_env (Response 401 (Parsed refusal)) flagged_world))
       = displays (trace flagged_world)
   \<and> localStorage (loadProfile sample_env (Response 401 (Parsed refusal)) flagged_world)
       = localStorage flagged_world"
proof -
  have a: "localStorage flagged_world ''isLoggedIn'' = Some ''true''"
    by (simp add: flagged_world_def)
  have b: "\<not> reports_success (Response 401 (Parsed refusal))"
    by (simp add: refusal_def)
  from cached_flag_is_confirmed_by_server [OF a, of "Response 401 (Parsed refusal)" sample_env] a b
  show ?thesis by blast
qed

text \<open>
  C2 as stated fails on the profile page: its guard reports success with the flag set
  and not a single request issued.
\<close>

theorem profile_guard_without_round_trip_counterexample:
  "localStorage flagged_world ''isLoggedIn'' = Some ''true''
   \<and> fst (profile_checkAuthentication flagged_world)
   \<and> fetches (trace (snd (profile_checkAuthentication flagged_world))) = []"
  by (simp add: profile_checkAuthentication_def flagged_world_def)

section \<open>Logout\<close>

lemma forum_handleLogout_effects:
  "localStorage (forum_handleLogout r w) = (localStorage w)(''user'' := None, ''isLoggedIn'' := None)"
  "navigations (trace (forum_handleLogout r w)) = navigations (trace w) @ [''index.html'']"
  "fetches (trace (forum_handleLogout r w)) = fetches (trace w) @ [API_BASE_URL @ ''/auth/logout.php'']"
  by (simp_all add: forum_handleLogout_def forum_handleLogout_catch_def world_simps Let_def
      split: fetch_result.split body.split)

lemma profile_handleLogout_effects:
  "localStorage (profile_handleLogout env r w) = (localStorage w)(''user'' := None, ''isLoggedIn'' := None)"
  "navigations (trace (profile_handleLogout env r w)) = navigations (trace w) @ [''index.html'']"
  "fetches (trace (profile_handleLogout env r w)) = fetches (trace w) @ [api_base env @ ''/auth/logout.php'']"
  by (simp_all add: profile_handleLogout_def profile_handleLogout_catch_def world_simps Let_def
      split: fetch_result.split)

text \<open>
  C3: whatever the logout request does (it is rejected, its body does not parse, the
  server answers with any status and any body), \<^verbatim>\<open>handleLogout\<close> on the forum page and
  on the profile page removes the cached user record and the logged-in flag and asks for
  \<^verbatim>\<open>index.html\<close>. A second call right after the first, on the cache the first one
  emptied, does the same again: removing an absent key is not an error, and no branch of
  the handler leaves the \<^verbatim>\<open>try\<close>/\<^verbatim>\<open>catch\<close> with an exception.
\<close>

theorem logout_clears_cache_and_navigates:
  "localStorage (forum_handleLogout r w) ''user'' = None
   \<and> localStorage (forum_handleLogout r w) ''isLoggedIn'' = None
   \<and> navigations (trace (forum_handleLogout r w)) = navigations (trace w) @ [''index.html'']
   \<and> localStorage (forum_handleLogout r' (forum_handleLogout r w)) ''user'' = None
   \<and> localStorage (forum_handleLogout r' (forum_handleLogout r w)) ''isLoggedIn'' = None
   \<and> navigations (trace (forum_handleLogout r' (forum_handleLogout r w))) =
        navigations (trace w) @ [''index.html'', ''index.html'']
   \<and> localStorage (profile_handleLogout env r w) ''user'' = None
   \<and> localStorage (profile_handleLogout env r w) ''isLoggedIn'' = None
   \<and> navigations (trace (profile_handleLogout env r w)) = navigations (trace w) @ [''index.html'']
   \<and> localStorage (profile_handleLogout env r' (profile_handleLogout env r w)) ''user'' = None
   \<and> localStorage (profile_handleLogout env r' (profile_handleLogout env r w)) ''isLoggedIn'' = None
   \<and> navigations (trace (profile_handleLogout env r' (profile_handleLogout env r w))) =
        navigations (trace w) @ [''index.html'', ''index.html'']"
  by (simp add: forum_handleLogout_effects profile_handleLogout_effects)

text \<open>Logging out twice with the server unreachable, then answering garbage.\<close>

theorem logout_clears_cache_and_navigates_witness:
  "localStorage (forum_handleLogout NetworkError flagged_world) ''isLoggedIn'' = None
   \<and> navigations (trace (forum_handleLogout NetworkError flagged_world)) = [''index.html'']
   \<and> navigations (trace (forum_handleLogout (Response 500 Unparseable)
         (forum_handleLogout NetworkError flagged_world))) = [''index.html'', ''index.html'']"
  using logout_clears_cache_and_navigates
    [of NetworkError flagged_world "Response 500 Unparseable" sample_env]
  by (simp add: flagged_world_def)

section \<open>Login\<close>

lemma handleLogin_store:
  "localStorage (handleLogin env e p r w) =
     (if isValidEmail (trim e) \<and> p \<noteq> [] \<and> reports_success r
      then (localStorage w)(''user'' \<mapsto> json_stringify env (payload r), ''isLoggedIn'' \<mapsto> ''true'')
      else localStorage w)"
  by (cases r rule: call_throws.cases)
     (simp_all add: handleLogin_def handleLogin_catch_def world_simps Let_def payload_def)

text \<open>
  C4: for an email that passes \<^verbatim>\<open>isValidEmail\<close> after trimming and a non-empty
  password, a login whose call reports success leaves the cache with the user entry set
  to the serialised \<^verbatim>\<open>data.data\<close> of the response and the flag set to \<^verbatim>\<open>'true'\<close>;
  any other outcome (the server reports failure, or the call throws) leaves the cache
  exactly as it was.
\<close>

theorem login_cache_effect:
  assumes "isValidEmail (trim e)" and "p \<noteq> []"
  shows "localStorage (handleLogin env e p r w) =
     (if reports_success r
      then (localStorage w)(''user'' \<mapsto> json_stringify env (payload r), ''isLoggedIn'' \<mapsto> ''true'')
      else localStorage w)"
  using assms by (simp add: handleLogin_store)

text \<open>A successful login, a refused one and an unreachable server, from an empty cache.\<close>

theorem login_cache_effect_witness:
  "isValidEmail (trim ''ann@example.org'') \<and> ''secret'' \<noteq> []
   \<and> localStorage (handleLogin sample_env ''ann@example.org'' ''secret''
         (Response 200 (Parsed profile_ok)) empty_world) ''isLoggedIn'' = Some ''true''
   \<and> localStorage (handleLogin sample_env ''ann@example.org'' ''secret''
         (Response 200 (Parsed profile_ok)) empty_world) ''user''
       = Some (json_stringify sample_env (payload (Response 200 (Parsed profile_ok))))
   \<and> localStorage (handleLogin sample_env ''ann@example.org'' ''secret''
         (Response 401 (Parsed refusal)) empty_world) = localStorage empty_world
   \<and> localStorage (handleLogin sample_env ''ann@example.org'' ''secret''
         NetworkError empty_world) = localStorage empty_world"
proof -
  have a: "isValidEmail (trim ''ann@example.org'')"
    by (simp add: isValidEmail_def trim_def is_space_def not_space_at_def)
  have b: "''secret'' \<noteq> []" by simp
  have ok: "reports_success (Response 200 (Parsed profile_ok))" by (simp add: profile_ok_def)
  have no: "\<not> reports_success (Response 401 (Parsed refusal))" by (simp add: refusal_def)
  have no': "\<not> reports_success NetworkError" by simp
  have 1: "localStorage (handleLogin sample_env ''ann@example.org'' ''secret''
         (Response 200 (Parsed profile_ok)) empty_world) =
       (localStorage empty_world)(''user'' \<mapsto>
          json_stringify sample_env (payload (Response 200 (Parsed profile_ok))),
          ''isLoggedIn'' \<mapsto> ''true'')"
    using login_cache_effect [OF a b, of sample_env "Response 200 (Parsed profile_ok)" empty_world]
    by (simp only: ok if_True)
  have 2: "localStorage (handleLogin sample_env ''ann@example.org'' ''secret''
         (Response 401 (Parsed refusal)) empty_world) = localStorage empty_world"
    using login_cache_effect [OF a b, of sample_env "Response 401 (Parsed refusal)" empty_world]
    by (simp only: no if_False)
  have 3: "localStorage (handleLogin sample_env ''ann@example.org'' ''secret''
         NetworkError empty_world) = localStorage empty_world"
    using login_cache_effect [OF a b, of sample_env NetworkError empty_world]
    by (simp only: no' if_False)
  show ?thesis using a b 2 3 by (simp add: 1)
qed


section \<open>Creating a post and registering\<close>

lemma handleCreatePost_rejected:
  assumes "\<not> (5 \<le> length (trim t) \<and> length (trim t) \<le> 200
             \<and> 10 \<le> length (trim c) \<and> length (trim c) \<le> 5000)"
  shows "handleCreatePost env t c r rl w =
     showMessage
       (JStr (if length (trim t) < 5 \<or> 200 < length (trim t)
              then ''Title must be between 5 and 200 characters''
              else ''Content must be between 10 and 5000 characters''))
       ''error'' (emit PreventDefault w)"
  using assms by (auto simp add: handleCreatePost_def Let_def)

lemma handleCreatePost_accepted:
  assumes "5 \<le> length (trim t)" "length (trim t) \<le> 200"
    "10 \<le> length (trim c)" "length (trim c) \<le> 5000"
  shows "handleCreatePost env t c r rl w =
     (if reports_success r \<and> convertible (message_of r) then
        loadPosts env rl
          (emit (SetTextContent ''contentCount'' (JStr ''0''))
            (emit (SetTextContent ''titleCount'' (JStr ''0''))
              (emit (FormReset ''createPostForm'')
                (showMessage (message_of r) ''success''
                  (emit (Fetch (API_BASE_URL @ ''/posts/create.php'') ''POST'' True
                           (Some [(''title'', trim t), (''content'', trim c)]))
                    (emit PreventDefault w))))))
      else if reports_failure r \<and> has_status r 401 then
        emit (SetTimeout ExpireSession 2000)
          (showMessage (JStr ''Session expired. Please login again.'') ''error''
            (emit (Fetch (API_BASE_URL @ ''/posts/create.php'') ''POST'' True
                     (Some [(''title'', trim t), (''content'', trim c)]))
              (emit PreventDefault w)))
      else if reports_failure r \<and> convertible (message_of r) then
        showMessage (message_of r) ''error''
          (emit (Fetch (API_BASE_URL @ ''/posts/create.php'') ''POST'' True
                   (Some [(''title'', trim t), (''content'', trim c)]))
            (emit PreventDefault w))
      else
        handleCreatePost_catch
          (emit (Fetch (API_BASE_URL @ ''/posts/create.php'') ''POST'' True
                   (Some [(''title'', trim t), (''content'', trim c)]))
            (emit PreventDefault w)))"
  using assms
  by (cases r rule: call_throws.cases)
     (simp_all add: handleCreatePost_def Let_def message_of_def not_less [symmetric])

lemma handleCreatePost_fetches:
  "fetches (trace (handleCreatePost env t c r rl w)) =
     fetches (trace w) @
       (if 5 \<le> length (trim t) \<and> length (trim t) \<le> 200
            \<and> 10 \<le> length (trim c) \<and> length (trim c) \<le> 5000
        then (API_BASE_URL @ ''/posts/create.php'')
               # (if reports_success r \<and> convertible (message_of r)
                  then [API_BASE_URL @ ''/posts/list.php''] else [])
        else [])"
proof (cases "5 \<le> length (trim t) \<and> length (trim t) \<le> 200
            \<and> 10 \<le> length (trim c) \<and> length (trim c) \<le> 5000")
  case True
  then show ?thesis
    by (simp add: handleCreatePost_accepted handleCreatePost_catch_def loadPosts_effects world_simps)
next
  case False
  then show ?thesis
    by (simp add: handleCreatePost_rejected world_simps)
qed

lemma handleCreatePost_store:
  "localStorage (handleCreatePost env t c r rl w) = localStorage w"
proof (cases "5 \<le> length (trim t) \<and> length (trim t) \<le> 200
            \<and> 10 \<le> length (trim c) \<and> length (trim c) \<le> 5000")
  case True
  then show ?thesis
    by (simp add: handleCreatePost_accepted handleCreatePost_catch_def loadPosts_effects world_simps)
next
  case False
  then show ?thesis
    by (simp add: handleCreatePost_rejected world_simps)
qed

lemma handleRegister_rejected:
  assumes "\<not> (3 \<le> length (trim n) \<and> length (trim n) \<le> 100
             \<and> isValidEmail (trim e) \<and> length (trim e) \<le> 100 \<and> 6 \<le> length p)"
  shows "handleRegister env n e p r w =
     showMessage
       (JStr (if length (trim n) < 3 \<or> 100 < length (trim n)
              then ''Name must be between 3 and 100 characters''
              else if \<not> isValidEmail (trim e) \<or> 100 < length (trim e)
              then ''Please enter a valid email address''
              else ''Password must be at least 6 characters long''))
       ''error'' (emit PreventDefault w)"
  using assms by (auto simp add: handleRegister_def Let_def)

lemma handleRegister_success:
  assumes "3 \<le> length (trim n)" "length (trim n) \<le> 100"
    "isValidEmail (trim e)" "length (trim e) \<le> 100" "6 \<le> length p"
    and "reports_success r" and "convertible (message_of r)"
  shows "handleRegister env n e p r w =
        emit (FormReset ''registerForm'')
          (showMessage
             (JStr (js_to_string env (message_of r) @ '' Please login to continue.''))
             ''success''
             (toggleLoading False
               (emit (Fetch (api_base env @ ''/auth/register.php'') ''POST'' False
                        (Some [(''name'', trim n), (''email'', trim e), (''password'', p)]))
                 (toggleLoading True (emit PreventDefault w)))))"
  using assms
  by (cases r rule: call_throws.cases)
     (simp_all add: handleRegister_def Let_def message_of_def not_less [symmetric])

lemma handleRegister_fetches:
  "fetches (trace (handleRegister env n e p r w)) =
     fetches (trace w) @
       (if 3 \<le> length (trim n) \<and> length (trim n) \<le> 100
             \<and> isValidEmail (trim e) \<and> length (trim e) \<le> 100 \<and> 6 \<le> length p
        then [api_base env @ ''/auth/register.php''] else [])"
  by (cases r rule: call_throws.cases)
     (auto simp add: handleRegister_def handleRegister_catch_def Let_def world_simps)

lemma handleRegister_store:
  "localStorage (handleRegister env n e p r w) = localStorage w"
  by (cases r rule: call_throws.cases)
     (simp_all add: handleRegister_def handleRegister_catch_def Let_def world_simps)

lemma handleRegister_navigations:
  "navigations (trace (handleRegister env n e p r w)) = navigations (trace w)"
  by (cases r rule: call_throws.cases)
     (simp_all add: handleRegister_def handleRegister_catch_def Let_def world_simps)

text \<open>
  A success whose message is an object with an own \<^verbatim>\<open>toString\<close> property: building the
  success message throws, and the user is told that the server could not be reached.
\<close>

lemma handleRegister_unconvertible_message:
  "\<not> convertible (message_of (Response 200 (Parsed odd_message)))"
  "messages (trace (handleRegister sample_env ''Ann'' ''ann@example.org'' ''secret''
      (Response 200 (Parsed odd_message)) empty_world)) =
     [JStr ''Failed to connect to server. Please try again later.'']"
  by (simp_all add: handleRegister_def handleRegister_catch_def Let_def world_simps
      odd_message_def message_of_def empty_world_def trim_def is_space_def isValidEmail_def
      not_space_at_def)

text \<open>
  C5, as the code has it: lengths are measured after \<^verbatim>\<open>trim()\<close> for the title, the
  content, the name and the email, and on the raw input for the password. The
  create-post flow reaches its request iff the trimmed title has 5 to 200 characters and
  the trimmed content 10 to 5000; the registration flow iff the trimmed name has 3 to 100
  characters, the trimmed email is well-formed and at most 100 characters long, and the
  password has at least 6. Whenever one of these checks fails, the flow makes no request
  and all it does is show the local error message of the first check that failed.
\<close>

theorem local_validation_measures_trimmed_input:
  "(fetches (trace (handleCreatePost env t c r rl w)) \<noteq> fetches (trace w)) =
     (5 \<le> length (trim t) \<and> length (trim t) \<le> 200
      \<and> 10 \<le> length (trim c) \<and> length (trim c) \<le> 5000)
   \<and> (fetches (trace (handleRegister env n e p r w)) \<noteq> fetches (trace w)) =
     (3 \<le> length (trim n) \<and> length (trim n) \<le> 100
      \<and> isValidEmail (trim e) \<and> length (trim e) \<le> 100 \<and> 6 \<le> length p)
   \<and> (\<not> (5 \<le> length (trim t) \<and> length (trim t) \<le> 200
           \<and> 10 \<le> length (trim c) \<and> length (trim c) \<le> 5000) \<longrightarrow>
        handleCreatePost env t c r rl w =
          showMessage
            (JStr (if length (trim t) < 5 \<or> 200 < length (trim t)
                   then ''Title must be between 5 and 200 characters''
                   else ''Content must be between 10 and 5000 characters''))
            ''error'' (emit PreventDefault w))
   \<and> (\<not> (3 \<le> length (trim n) \<and> length (trim n) \<le> 100
           \<and> isValidEmail (trim e) \<and> length (trim e) \<le> 100 \<and> 6 \<le> length p) \<longrightarrow>
        handleRegister env n e p r w =
          showMessage
            (JStr (if length (trim n) < 3 \<or> 100 < length (trim n)
                   then ''Name must be between 3 and 100 characters''
                   else if \<not> isValidEmail (trim e) \<or> 100 < length (trim e)
                   then ''Please enter a valid email address''
                   else ''Password must be at least 6 characters long''))
            ''error'' (emit PreventDefault w))"
proof (intro conjI impI)
  show "(fetches (trace (handleCreatePost env t c r rl w)) \<noteq> fetches (trace w)) =
     (5 \<le> length (trim t) \<and> length (trim t) \<le> 200
      \<and> 10 \<le> length (trim c) \<and> length (trim c) \<le> 5000)"
    by (simp only: handleCreatePost_fetches) simp
  show "(fetches (trace (handleRegister env n e p r w)) \<noteq> fetches (trace w)) =
     (3 \<le> length (trim n) \<and> length (trim n) \<le> 100
      \<and> isValidEmail (trim e) \<and> length (trim e) \<le> 100 \<and> 6 \<le> length p)"
    by (simp only: handleRegister_fetches) simp
qed (rule handleCreatePost_rejected, assumption, rule handleRegister_rejected, assumption)

text \<open>The title \<^verbatim>\<open>Hi\<close> and the name \<^verbatim>\<open>Al\<close> are refused locally.\<close>

theorem local_validation_measures_trimmed_input_witness:
  "\<not> (5 \<le> length (trim ''Hi'') \<and> length (trim ''Hi'') \<le> 200
        \<and> 10 \<le> length (trim ''whatever this is long enough'')
        \<and> length (trim ''whatever this is long enough'') \<le> 5000)
   \<and> \<not> (3 \<le> length (trim ''Al'') \<and> length (trim ''Al'') \<le> 100
        \<and> isValidEmail (trim ''al@example.org'') \<and> length (trim ''al@example.org'') \<le> 100
        \<and> 6 \<le> length ''secret'')
   \<and> handleCreatePost sample_env ''Hi'' ''whatever this is long enough''
        (Response 200 (Parsed profile_ok)) NetworkError empty_world =
        showMessage (JStr ''Title must be between 5 and 200 characters'') ''error''
          (emit PreventDefault empty_world)
   \<and> handleRegister sample_env ''Al'' ''al@example.org'' ''secret''
        (Response 200 (Parsed profile_ok)) empty_world =
        showMessage (JStr ''Name must be between 3 and 100 characters'') ''error''
          (emit PreventDefault empty_world)
   \<and> fetches (trace (handleCreatePost sample_env ''Hi'' ''whatever this is long enough''
        (Response 200 (Parsed profile_ok)) NetworkError empty_world)) = fetches (trace empty_world)"
proof -
  have a: "\<not> (5 \<le> length (trim ''Hi'') \<and> length (trim ''Hi'') \<le> 200
        \<and> 10 \<le> length (trim ''whatever this is long enough'')
        \<and> length (trim ''whatever this is long enough'') \<le> 5000)"
    by (simp add: trim_def is_space_def)
  have b: "\<not> (3 \<le> length (trim ''Al'') \<and> length (trim ''Al'') \<le> 100
        \<and> isValidEmail (trim ''al@example.org'') \<and> length (trim ''al@example.org'') \<le> 100
        \<and> 6 \<le> length ''secret'')"
    by (simp add: trim_def is_space_def)
  have c: "length (trim ''Hi'') < 5" "length (trim ''Al'') < 3"
    by (simp_all add: trim_def is_space_def)
  note inst = local_validation_measures_trimmed_input
      [of sample_env "''Hi''" "''whatever this is long enough''"
          "Response 200 (Parsed profile_ok)" NetworkError empty_world
          "''Al''" "''al@example.org''" "''secret''"]
  have d: "fetches (trace (handleCreatePost sample_env ''Hi'' ''whatever this is long enough''
        (Response 200 (Parsed profile_ok)) NetworkError empty_world)) = fetches (trace empty_world)"
    using a inst by blast
  have e: "handleCreatePost sample_env ''Hi'' ''whatever this is long enough''
        (Response 200 (Parsed profile_ok)) NetworkError empty_world =
        showMessage (JStr ''Title must be between 5 and 200 characters'') ''error''
          (emit PreventDefault empty_world)"
    using a c inst by (simp only: if_True simp_thms)
  have f: "handleRegister sample_env ''Al'' ''al@example.org'' ''secret''
        (Response 200 (Parsed profile_ok)) empty_world =
        showMessage (JStr ''Name must be between 3 and 100 characters'') ''error''
          (emit PreventDefault empty_world)"
    using b c inst by (simp only: if_True simp_thms)
  from a b d e f show ?thesis by blast
qed

text \<open>
  C5 as stated fails: a title field holding \<^verbatim>\<open>Hi\<close> between blanks is seven characters
  long, within 5 to 200, and is refused, because what is measured is \<^verbatim>\<open>Hi\<close>.
\<close>

theorem untrimmed_length_counterexample:
  "5 \<le> length ''  Hi   '' \<and> length ''  Hi   '' \<le> 200
   \<and> 10 \<le> length ''whatever this is long enough''
   \<and> length ''whatever this is long enough'' \<le> 5000
   \<and> fetches (trace (handleCreatePost sample_env ''  Hi   '' ''whatever this is long enough''
        (Response 200 (Parsed profile_ok)) NetworkError empty_world)) = []
   \<and> messages (trace (handleCreatePost sample_env ''  Hi   '' ''whatever this is long enough''
        (Response 200 (Parsed profile_ok)) NetworkError empty_world)) =
       [JStr ''Title must be between 5 and 200 characters'']"
  by (simp add: handleCreatePost_def Let_def trim_def is_space_def world_simps empty_world_def)

text \<open>
  C6: a registration that passes the local checks and whose call reports success writes
  nothing to the cache (the logged-in flag and the user record are what they were) and
  requests no navigation. With the message a string, as the interface of the server has
  it, or any other value that converts to one, the flow shows that message followed by
  \<^verbatim>\<open>Please login to continue.\<close> as a success and resets the registration form.
\<close>

theorem register_success_leaves_cache_untouched:
  assumes "3 \<le> length (trim n)" "length (trim n) \<le> 100"
    "isValidEmail (trim e)" "length (trim e) \<le> 100" "6 \<le> length p"
    and "reports_success r"
  shows "(convertible (message_of r) \<longrightarrow>
          handleRegister env n e p r w =
            emit (FormReset ''registerForm'')
              (showMessage
                 (JStr (js_to_string env (message_of r) @ '' Please login to continue.''))
                 ''success''
                 (toggleLoading False
                   (emit (Fetch (api_base env @ ''/auth/register.php'') ''POST'' False
                            (Some [(''name'', trim n), (''email'', trim e), (''password'', p)]))
                     (toggleLoading True (emit PreventDefault w))))))
     \<and> localStorage (handleRegister env n e p r w) = localStorage w
     \<and> navigations (trace (handleRegister env n e p r w)) = navigations (trace w)"
  using assms
  by (simp add: handleRegister_success handleRegister_store handleRegister_navigations)

text \<open>Registering from an empty cache leaves it empty.\<close>

theorem register_success_leaves_cache_untouched_witness:
  "3 \<le> length (trim ''Ann'') \<and> length (trim ''Ann'') \<le> 100
   \<and> isValidEmail (trim ''ann@example.org'') \<and> length (trim ''ann@example.org'') \<le> 100
   \<and> 6 \<le> length ''secret'' \<and> reports_success (Response 200 (Parsed profile_ok))
   \<and> convertible (message_of (Response 200 (Parsed profile_ok)))
   \<and> messages (trace (handleRegister sample_env ''Ann'' ''ann@example.org'' ''secret''
         (Response 200 (Parsed profile_ok)) empty_world)) =
       [JStr ''Welcome Please login to continue.'']
   \<and> localStorage (handleRegister sample_env ''Ann'' ''ann@example.org'' ''secret''
         (Response 200 (Parsed profile_ok)) empty_world) = localStorage empty_world
   \<and> localStorage empty_world ''isLoggedIn'' = None
   \<and> localStorage empty_world ''user'' = None"
proof -
  have a: "3 \<le> length (trim ''Ann'')" "length (trim ''Ann'') \<le> 100"
    "isValidEmail (trim ''ann@example.org'')" "length (trim ''ann@example.org'') \<le> 100"
    "6 \<le> length ''secret''"
    by (simp_all add: trim_def is_space_def isValidEmail_def not_space_at_def)
  have b: "reports_success (Response 200 (Parsed profile_ok))"
    by (simp add: profile_ok_def)
  have c: "localStorage empty_world ''isLoggedIn'' = None" "localStorage empty_world ''user'' = None"
    by (simp_all add: empty_world_def)
  have d: "convertible (message_of (Response 200 (Parsed profile_ok)))"
    by (simp add: message_of_def profile_ok_def)
  note inst = register_success_leaves_cache_untouched [OF a b, of sample_env empty_world]
  have e: "handleRegister sample_env ''Ann'' ''ann@example.org'' ''secret''
         (Response 200 (Parsed profile_ok)) empty_world =
       emit (FormReset ''registerForm'')
         (showMessage
            (JStr (js_to_string sample_env (message_of (Response 200 (Parsed profile_ok)))
                     @ '' Please login to continue.''))
            ''success''
            (toggleLoading False
              (emit (Fetch (api_base sample_env @ ''/auth/register.php'') ''POST'' False
                       (Some [(''name'', trim ''Ann''), (''email'', trim ''ann@example.org''),
                              (''password'', ''secret'')]))
                (toggleLoading True (emit PreventDefault empty_world)))))"
    using inst d by blast
  have f: "messages (trace (handleRegister sample_env ''Ann'' ''ann@example.org'' ''secret''
         (Response 200 (Parsed profile_ok)) empty_world)) =
       [JStr ''Welcome Please login to continue.'']"
    by (subst e) (simp add: world_simps empty_world_def sample_env_def message_of_def profile_ok_def)
  from inst a b c d f show ?thesis by blast
qed

section \<open>The forum page's guard when the call fails\<close>

text \<open>
  C7: on a forum page load with the cached flag \<^verbatim>\<open>'true'\<close>, when the confirmation call
  throws (the request is rejected, or the body does not parse, or parses to \<^verbatim>\<open>null\<close>),
  the guard returns \<^verbatim>\<open>false\<close>, shows \<^verbatim>\<open>Failed to verify authentication\<close> as an
  error, leaves the cache unchanged and requests no navigation; the page does nothing
  further.
\<close>

theorem forum_guard_transport_failure:
  assumes "localStorage w ''isLoggedIn'' = Some ''true''" and "call_throws r"
  shows "\<not> fst (forum_checkAuthentication r w)
       \<and> snd (forum_checkAuthentication r w) =
           showMessage (JStr ''Failed to verify authentication'') ''error''
             (emit (ConsoleError ''Authentication check error:'')
               (emit (Fetch (API_BASE_URL @ ''/users/profile.php'') ''GET'' True None) w))
       \<and> localStorage (snd (forum_checkAuthentication r w)) = localStorage w
       \<and> navigations (trace (snd (forum_checkAuthentication r w))) = navigations (trace w)
       \<and> messages (trace (snd (forum_checkAuthentication r w))) =
           messages (trace w) @ [JStr ''Failed to verify authentication'']
       \<and> forum_DOMContentLoaded env r r_list w = snd (forum_checkAuthentication r w)"
  using assms
  by (simp add: forum_guard_throws forum_checkAuthentication_catch_def forum_DOMContentLoaded_def
      world_simps)

text \<open>An unreachable server, and a body that is not JSON.\<close>

theorem forum_guard_transport_failure_witness:
  "localStorage flagged_world ''isLoggedIn'' = Some ''true'' \<and> call_throws NetworkError
   \<and> call_throws (Response 200 Unparseable)
   \<and> \<not> fst (forum_checkAuthentication NetworkError flagged_world)
   \<and> localStorage (snd (forum_checkAuthentication NetworkError flagged_world))
        = localStorage flagged_world
   \<and> navigations (trace (snd (forum_checkAuthentication NetworkError flagged_world)))
        = navigations (trace flagged_world)
   \<and> \<not> fst (forum_checkAuthentication (Response 200 Unparseable) flagged_world)
   \<and> localStorage (snd (forum_checkAuthentication (Response 200 Unparseable) flagged_world))
        = localStorage flagged_world"
proof -
  have a: "localStorage flagged_world ''isLoggedIn'' = Some ''true''"
    by (simp add: flagged_world_def)
  have b: "call_throws NetworkError" "call_throws (Response 200 Unparseable)"
    by simp_all
  from forum_guard_transport_failure [OF a b(1), of sample_env NetworkError]
    forum_guard_transport_failure [OF a b(2), of sample_env NetworkError] a b
  show ?thesis by blast
qed

section \<open>The status 401\<close>

lemma loadProfile_status:
  "loadProfile env (Response status b) w =
     (if reports_failure (Response status b) \<and> status = 401
      then emit (SetTimeout ExpireSession 2000)
             (showMessage (JStr ''Session expired. Please login again.'') ''error''
               (toggleLoading False
                 (emit (Fetch (api_base env @ ''/users/profile.php'') ''GET'' True None)
                   (toggleLoading True w))))
      else loadProfile env (Response 200 b) w)"
  by (cases b) (simp_all add: loadProfile_def Let_def)

lemma handleCreatePost_status:
  "handleCreatePost env t c (Response status b) rl w =
     (if 5 \<le> length (trim t) \<and> length (trim t) \<le> 200
         \<and> 10 \<le> length (trim c) \<and> length (trim c) \<le> 5000
         \<and> reports_failure (Response status b) \<and> status = 401
      then emit (SetTimeout ExpireSession 2000)
             (showMessage (JStr ''Session expired. Please login again.'') ''error''
               (emit (Fetch (API_BASE_URL @ ''/posts/create.php'') ''POST'' True
                        (Some [(''title'', trim t), (''content'', trim c)]))
                 (emit PreventDefault w)))
      else handleCreatePost env t c (Response 200 b) rl w)"
  by (cases b) (auto simp add: handleCreatePost_def Let_def)

text \<open>
  C8, as the code has it: \<^verbatim>\<open>loadProfile\<close> and \<^verbatim>\<open>handleCreatePost\<close> look at the status
  only in the failure branch. A response with status 401 gets the session-expired
  handling (the message, and after 2000 ms the cache cleared and \<^verbatim>\<open>index.html\<close>
  requested) exactly when its body parses to a value that reports failure. When the body
  reports success, or does not parse, the status is not read and the response is handled
  as the same body with status 200 is.
\<close>

theorem status_401_counts_only_when_body_reports_failure:
  "loadProfile env (Response 401 b) w =
     (if reports_failure (Response 401 b)
      then emit (SetTimeout ExpireSession 2000)
             (showMessage (JStr ''Session expired. Please login again.'') ''error''
               (toggleLoading False
                 (emit (Fetch (api_base env @ ''/users/profile.php'') ''GET'' True None)
                   (toggleLoading True w))))
      else loadProfile env (Response 200 b) w)
   \<and> handleCreatePost env t c (Response 401 b) rl w =
     (if 5 \<le> length (trim t) \<and> length (trim t) \<le> 200
         \<and> 10 \<le> length (trim c) \<and> length (trim c) \<le> 5000
         \<and> reports_failure (Response 401 b)
      then emit (SetTimeout ExpireSession 2000)
             (showMessage (JStr ''Session expired. Please login again.'') ''error''
               (emit (Fetch (API_BASE_URL @ ''/posts/create.php'') ''POST'' True
                        (Some [(''title'', trim t), (''content'', trim c)]))
                 (emit PreventDefault w)))
      else handleCreatePost env t c (Response 200 b) rl w)"
  by (simp add: loadProfile_status [of env 401] handleCreatePost_status [of env t c 401])

text \<open>A 401 whose body reports failure: the message and the two timers.\<close>

theorem status_401_counts_only_when_body_reports_failure_witness:
  "timeouts (trace (loadProfile sample_env (Response 401 (Parsed refusal)) flagged_world)) =
     [(HideMessage, 5000), (ExpireSession, 2000)]
   \<and> messages (trace (loadProfile sample_env (Response 401 (Parsed refusal)) flagged_world)) =
     [JStr ''Session expired. Please login again.'']"
proof -
  have a: "reports_failure (Response 401 (Parsed refusal))"
    by (simp add: refusal_def)
  have "loadProfile sample_env (Response 401 (Parsed refusal)) flagged_world =
      emit (SetTimeout ExpireSession 2000)
             (showMessage (JStr ''Session expired. Please login again.'') ''error''
               (toggleLoading False
                 (emit (Fetch (api_base sample_env @ ''/users/profile.php'') ''GET'' True None)
                   (toggleLoading True flagged_world))))"
    using status_401_counts_only_when_body_reports_failure
      [of sample_env "Parsed refusal" flagged_world "''t''" "''c''" NetworkError] a
    by (simp only: if_True)
  then show ?thesis
    by (simp add: world_simps flagged_world_def)
qed

text \<open>
  C8 as stated fails: on a 401 whose body reports success \<^verbatim>\<open>loadProfile\<close> shows the
  profile card, shows no message, schedules nothing, and the flag stays set.
\<close>

theorem status_401_with_success_body_counterexample:
  "has_status (Response 401 (Parsed profile_ok)) 401
   \<and> timeouts (trace (loadProfile sample_env (Response 401 (Parsed profile_ok)) flagged_world)) = []
   \<and> messages (trace (loadProfile sample_env (Response 401 (Parsed profile_ok)) flagged_world)) = []
   \<and> displays (trace (loadProfile sample_env (Response 401 (Parsed profile_ok)) flagged_world)) =
       [(''profileCard'', ''block'')]
   \<and> localStorage (loadProfile sample_env (Response 401 (Parsed profile_ok)) flagged_world)
       ''isLoggedIn'' = Some ''true''"
  by (simp add: loadProfile_def Let_def profile_ok_def flagged_world_def world_simps)

section \<open>Creating a post: success and expiry\<close>

text \<open>
  C9, as the code has it: for a post that passes the local checks, when the create call
  reports success (with a message that converts to a string, as the string of the
  server's interface does) the handler shows the server's message, resets the form and
  both counters, and then runs \<^verbatim>\<open>loadPosts\<close>, which issues the list request; it writes
  nothing into the posts container itself. When the response has status 401 and its body
  reports failure, the handler shows \<^verbatim>\<open>Session expired. Please login again.\<close> and sets a
  timer of 2000 ms whose callback removes both cache entries and requests
  \<^verbatim>\<open>index.html\<close>.
\<close>

theorem createPost_success_and_expiry:
  assumes "5 \<le> length (trim t)" "length (trim t) \<le> 200"
    "10 \<le> length (trim c)" "length (trim c) \<le> 5000"
    and "reports_success r" "convertible (message_of r)"
    and "reports_failure r'" "has_status r' 401"
  shows "handleCreatePost env t c r rl w =
        loadPosts env rl
          (emit (SetTextContent ''contentCount'' (JStr ''0''))
            (emit (SetTextContent ''titleCount'' (JStr ''0''))
              (emit (FormReset ''createPostForm'')
                (showMessage (message_of r) ''success''
                  (emit (Fetch (API_BASE_URL @ ''/posts/create.php'') ''POST'' True
                           (Some [(''title'', trim t), (''content'', trim c)]))
                    (emit PreventDefault w))))))
     \<and> fetches (trace (handleCreatePost env t c r rl w)) =
         fetches (trace w) @ [API_BASE_URL @ ''/posts/create.php'', API_BASE_URL @ ''/posts/list.php'']
     \<and> handleCreatePost env t c r' rl w =
        emit (SetTimeout ExpireSession 2000)
          (showMessage (JStr ''Session expired. Please login again.'') ''error''
            (emit (Fetch (API_BASE_URL @ ''/posts/create.php'') ''POST'' True
                     (Some [(''title'', trim t), (''content'', trim c)]))
              (emit PreventDefault w)))
     \<and> timeouts (trace (handleCreatePost env t c r' rl w)) =
         timeouts (trace w) @ [(HideMessage, 5000), (ExpireSession, 2000)]
     \<and> localStorage (run_callback ExpireSession (handleCreatePost env t c r' rl w)) =
         (localStorage w)(''user'' := None, ''isLoggedIn'' := None)
     \<and> navigations (trace (run_callback ExpireSession (handleCreatePost env t c r' rl w))) =
         navigations (trace w) @ [''index.html'']"
proof -
  have ok: "handleCreatePost env t c r rl w =
        loadPosts env rl
          (emit (SetTextContent ''contentCount'' (JStr ''0''))
            (emit (SetTextContent ''titleCount'' (JStr ''0''))
              (emit (FormReset ''createPostForm'')
                (showMessage (message_of r) ''success''
                  (emit (Fetch (API_BASE_URL @ ''/posts/create.php'') ''POST'' True
                           (Some [(''title'', trim t), (''content'', trim c)]))
                    (emit PreventDefault w))))))"
    using assms(1-6) by (simp add: handleCreatePost_accepted)
  have "\<not> reports_success r'"
    using assms(7) outcome_exclusive(3) [of r'] by blast
  then have expired: "handleCreatePost env t c r' rl w =
        emit (SetTimeout ExpireSession 2000)
          (showMessage (JStr ''Session expired. Please login again.'') ''error''
            (emit (Fetch (API_BASE_URL @ ''/posts/create.php'') ''POST'' True
                     (Some [(''title'', trim t), (''content'', trim c)]))
              (emit PreventDefault w)))"
    using assms(1-4,7,8) by (simp add: handleCreatePost_accepted)
  have f: "fetches (trace (handleCreatePost env t c r rl w)) =
         fetches (trace w) @ [API_BASE_URL @ ''/posts/create.php'', API_BASE_URL @ ''/posts/list.php'']"
    using assms(1-6) by (simp add: handleCreatePost_fetches)
  show ?thesis
    using ok f expired by (simp add: world_simps)
qed

text \<open>A post accepted by the server, and the same post refused with 401.\<close>

theorem createPost_success_and_expiry_witness:
  "5 \<le> length (trim ''Hello'') \<and> length (trim ''Hello'') \<le> 200
   \<and> 10 \<le> length (trim ''whatever this is long enough'')
   \<and> length (trim ''whatever this is long enough'') \<le> 5000
   \<and> reports_success (Response 200 (Parsed profile_ok))
   \<and> convertible (message_of (Response 200 (Parsed profile_ok)))
   \<and> reports_failure (Response 401 (Parsed refusal))
   \<and> has_status (Response 401 (Parsed refusal)) 401
   \<and> fetches (trace (handleCreatePost sample_env ''Hello'' ''whatever this is long enough''
         (Response 200 (Parsed profile_ok)) (Response 200 (Parsed no_posts)) flagged_world)) =
       fetches (trace flagged_world)
         @ [API_BASE_URL @ ''/posts/create.php'', API_BASE_URL @ ''/posts/list.php'']
   \<and> localStorage (run_callback ExpireSession
         (handleCreatePost sample_env ''Hello'' ''whatever this is long enough''
            (Response 401 (Parsed refusal)) (Response 200 (Parsed no_posts)) flagged_world)) =
       (localStorage flagged_world)(''user'' := None, ''isLoggedIn'' := None)
   \<and> navigations (trace (run_callback ExpireSession
         (handleCreatePost sample_env ''Hello'' ''whatever this is long enough''
            (Response 401 (Parsed refusal)) (Response 200 (Parsed no_posts)) flagged_world))) =
       navigations (trace flagged_world) @ [''index.html'']"
proof -
  have a: "5 \<le> length (trim ''Hello'')" "length (trim ''Hello'') \<le> 200"
    "10 \<le> length (trim ''whatever this is long enough'')"
    "length (trim ''whatever this is long enough'') \<le> 5000"
    by (simp_all add: trim_def is_space_def)
  have b: "reports_success (Response 200 (Parsed profile_ok))"
    "convertible (message_of (Response 200 (Parsed profile_ok)))"
    by (simp_all add: profile_ok_def message_of_def)
  have c: "reports_failure (Response 401 (Parsed refusal))"
    "has_status (Response 401 (Parsed refusal)) 401"
    by (simp_all add: refusal_def)
  from createPost_success_and_expiry
    [OF a b c, of sample_env "Response 200 (Parsed no_posts)" flagged_world] a b c
  show ?thesis by blast
qed

text \<open>
  C9 as stated fails for a response with status 401 whose body is not JSON: the post
  passes the local checks, the request is made, and the handler shows its generic error
  and schedules nothing but the hiding of that message, so the cache is never cleared
  and no navigation follows.
\<close>

theorem createPost_401_without_body_counterexample:
  "has_status (Response 401 Unparseable) 401
   \<and> fetches (trace (handleCreatePost sample_env ''Hello'' ''whatever this is long enough''
         (Response 401 Unparseable) NetworkError flagged_world)) =
       [API_BASE_URL @ ''/posts/create.php'']
   \<and> messages (trace (handleCreatePost sample_env ''Hello'' ''whatever this is long enough''
         (Response 401 Unparseable) NetworkError flagged_world)) =
       [JStr ''Failed to create post. Please try again.'']
   \<and> timeouts (trace (handleCreatePost sample_env ''Hello'' ''whatever this is long enough''
         (Response 401 Unparseable) NetworkError flagged_world)) = [(HideMessage, 5000)]
   \<and> localStorage (handleCreatePost sample_env ''Hello'' ''whatever this is long enough''
         (Response 401 Unparseable) NetworkError flagged_world) ''isLoggedIn'' = Some ''true''"
  by (simp add: handleCreatePost_def handleCreatePost_catch_def Let_def trim_def is_space_def
      world_simps flagged_world_def)

section \<open>The entry page\<close>

text \<open>
  C10: on a load of the entry page, \<^verbatim>\<open>checkLoginStatus\<close> issues the profile request iff
  the cached flag is \<^verbatim>\<open>'true'\<close>. It then requests \<^verbatim>\<open>forum.html\<close> iff the call reports
  success, removes both cache entries iff the call reports failure, and never shows a
  message; when the call throws, the cache is unchanged and nothing is requested.
\<close>

theorem entry_page_session_check:
  "localStorage (checkLoginStatus env r w) =
     (if localStorage w ''isLoggedIn'' = Some ''true'' \<and> reports_failure r
      then (localStorage w)(''user'' := None, ''isLoggedIn'' := None)
      else localStorage w)
   \<and> navigations (trace (checkLoginStatus env r w)) =
     navigations (trace w) @
       (if localStorage w ''isLoggedIn'' = Some ''true'' \<and> reports_success r
        then [''forum.html''] else [])
   \<and> messages (trace (checkLoginStatus env r w)) = messages (trace w)
   \<and> fetches (trace (checkLoginStatus env r w)) =
     fetches (trace w) @
       (if localStorage w ''isLoggedIn'' = Some ''true''
        then [api_base env @ ''/users/profile.php''] else [])"
  by (cases r rule: call_throws.cases)
     (simp_all add: checkLoginStatus_def verifySession_def Let_def world_simps)

text \<open>The three outcomes with the flag set, and a load with an empty cache.\<close>

theorem entry_page_session_check_witness:
  "navigations (trace (checkLoginStatus sample_env (Response 200 (Parsed profile_ok)) flagged_world))
     = [''forum.html'']
   \<and> localStorage (checkLoginStatus sample_env (Response 401 (Parsed refusal)) flagged_world)
       ''isLoggedIn'' = None
   \<and> navigations (trace (checkLoginStatus sample_env (Response 401 (Parsed refusal)) flagged_world))
     = []
   \<and> localStorage (checkLoginStatus sample_env NetworkError flagged_world) ''isLoggedIn''
     = Some ''true''
   \<and> navigations (trace (checkLoginStatus sample_env NetworkError flagged_world)) = []
   \<and> messages (trace (checkLoginStatus sample_env NetworkError flagged_world)) = []
   \<and> fetches (trace (checkLoginStatus sample_env NetworkError empty_world)) = []"
  using entry_page_session_check [of sample_env "Response 200 (Parsed profile_ok)" flagged_world]
    entry_page_session_check [of sample_env "Response 401 (Parsed refusal)" flagged_world]
    entry_page_session_check [of sample_env NetworkError flagged_world]
    entry_page_session_check [of sample_env NetworkError empty_world]
  by (simp add: flagged_world_def empty_world_def profile_ok_def refusal_def)

end
